theory Spec2Isabelle
  imports Complex_Main
begin

section \<open>The collaborators outside the component\<close>

text \<open>
  The three variants of \<open>App\<close> share one module-level call client
  (\<open>retellClient\<close> or \<open>retellWebClient\<close>) and one registration endpoint. The client is
  opaque: what the component does to it is the sequence of operations it invokes, kept
  in the state as a log, oldest first. \<open>StartCall tok raw\<close> is
  \<open>startCall({accessToken: tok, emitRawAudioSamples: raw})\<close>; the token is \<open>None\<close>
  where the source passes \<open>undefined\<close>.
\<close>

datatype client_op = StartCall "string option" bool | StopCall | Mute | Unmute

text \<open>
  What \<open>response.json()\<close> can deliver for a body: no JSON at all (the promise rejects),
  the value \<open>null\<close>, or an object, of which only the \<open>access_token\<close> field is read
  (\<open>None\<close> when the field is missing).
\<close>

datatype json_value = JNull | JObject "string option"

datatype response_body = NotJson | Json json_value

text \<open>\<open>fetch\<close> either rejects or resolves to a response with a status code and a body.\<close>

datatype fetch_outcome = TransportFailure | Response nat response_body

text \<open>The three outcomes of probing the microphone through \<open>navigator.mediaDevices\<close>.\<close>

datatype mic_outcome = MicUnsupported | MicGranted | MicRejected string string

text \<open>
  Everything the environment decides during one start attempt: the microphone probe,
  the registration request, and whether the promise of the client's \<open>startCall\<close> resolves.
\<close>

record start_env =
  mic :: mic_outcome
  fetched :: fetch_outcome
  startResolves :: bool

text \<open>What \<open>registerCall\<close> can throw: the rejection of \<open>fetch\<close>, its own error, that of \<open>json()\<close>.\<close>

datatype exn = FetchRejected | RegisterError nat | JsonSyntaxError

text \<open>\<open>response.ok\<close> of the Fetch API: the status is in the range 200 to 299.\<close>

definition response_ok :: "nat \<Rightarrow> bool" where
  "response_ok code = (200 \<le> code \<and> code \<le> 299)"

text \<open>
  \<open>registerCall\<close>, the same in the three variants up to the text of the error: it throws
  on a response that is not ok and otherwise returns \<open>response.json()\<close>.
\<close>

definition registerCall :: "fetch_outcome \<Rightarrow> exn + json_value" where
  "registerCall f =
     (case f of
        TransportFailure \<Rightarrow> Inl FetchRejected
      | Response code body \<Rightarrow>
          if \<not> response_ok code then Inl (RegisterError code)
          else (case body of NotJson \<Rightarrow> Inl JsonSyntaxError | Json v \<Rightarrow> Inr v))"

text \<open>Truthiness of \<open>registerCallResponse.access_token\<close>: a string that is not empty.\<close>

definition truthy :: "string option \<Rightarrow> bool" where
  "truthy tok = (case tok of None \<Rightarrow> False | Some t \<Rightarrow> t \<noteq> [])"

section \<open>JavaScript numbers\<close>

text \<open>
  A number is NaN, an infinity or a finite value. \<open>Fin\<close> carries the exact real value:
  the rounding of double arithmetic and the sign of zero are not modelled, so a finite
  result here is the value that the stored double approximates, and only results that
  involve no rounding (NaN, the infinities, exact constants) are those of the code to
  the bit. The operations are those the \<open>audio\<close> handler uses.
\<close>

datatype jsnum = NaN | PosInf | NegInf | Fin real

fun js_abs :: "jsnum \<Rightarrow> jsnum" where
  "js_abs NaN = NaN"
| "js_abs PosInf = PosInf"
| "js_abs NegInf = PosInf"
| "js_abs (Fin x) = Fin \<bar>x\<bar>"

fun js_add :: "jsnum \<Rightarrow> jsnum \<Rightarrow> jsnum" where
  "js_add NaN _ = NaN"
| "js_add _ NaN = NaN"
| "js_add PosInf NegInf = NaN"
| "js_add NegInf PosInf = NaN"
| "js_add PosInf _ = PosInf"
| "js_add _ PosInf = PosInf"
| "js_add NegInf _ = NegInf"
| "js_add _ NegInf = NegInf"
| "js_add (Fin x) (Fin y) = Fin (x + y)"

fun js_neg :: "jsnum \<Rightarrow> jsnum" where
  "js_neg NaN = NaN"
| "js_neg PosInf = NegInf"
| "js_neg NegInf = PosInf"
| "js_neg (Fin x) = Fin (- x)"

text \<open>Division; a zero divisor is the positive zero, as an array length is.\<close>

fun js_div :: "jsnum \<Rightarrow> jsnum \<Rightarrow> jsnum" where
  "js_div NaN _ = NaN"
| "js_div _ NaN = NaN"
| "js_div (Fin x) (Fin y) =
     (if y = 0 then (if x = 0 then NaN else if 0 < x then PosInf else NegInf)
      else Fin (x / y))"
| "js_div (Fin x) _ = Fin 0"
| "js_div a (Fin y) = (if 0 \<le> y then a else js_neg a)"
| "js_div _ _ = NaN"

fun js_mul :: "jsnum \<Rightarrow> jsnum \<Rightarrow> jsnum" where
  "js_mul NaN _ = NaN"
| "js_mul _ NaN = NaN"
| "js_mul (Fin x) (Fin y) = Fin (x * y)"
| "js_mul (Fin x) b = (if x = 0 then NaN else if 0 < x then b else js_neg b)"
| "js_mul a (Fin y) = (if y = 0 then NaN else if 0 < y then a else js_neg a)"
| "js_mul PosInf b = b"
| "js_mul NegInf b = js_neg b"

text \<open>\<open>Math.min\<close> of two numbers: NaN as soon as one argument is.\<close>

fun js_min :: "jsnum \<Rightarrow> jsnum \<Rightarrow> jsnum" where
  "js_min NaN _ = NaN"
| "js_min _ NaN = NaN"
| "js_min NegInf _ = NegInf"
| "js_min _ NegInf = NegInf"
| "js_min PosInf b = b"
| "js_min a PosInf = a"
| "js_min (Fin x) (Fin y) = Fin (min x y)"

section \<open>The variant with an enumerated status\<close>

datatype CallStatus = Idle | Connecting | Connected | Error

datatype TalkMode = Continuous | PushToTalk

text \<open>
  The state hooks of \<open>App\<close>, with the log of the operations invoked on \<open>retellClient\<close>.
  A handler reads the state it is given and returns the state after its updates.

  A handler is a closure of the render that created it. All but one are those of the
  latest render. The exception is \<open>toggleMute\<close> as the keyboard handler holds it: the
  effect that installs \<open>handleKeyDown\<close> lists \<open>talkMode\<close>, \<open>status\<close>, \<open>handlePTTStart\<close>
  and \<open>handlePTTEnd\<close> as its dependencies, so the installed handler keeps the
  \<open>toggleMute\<close> of the render in which the effect last ran. \<open>keydown_isMuted\<close> is the
  \<open>isMuted\<close> that this \<open>toggleMute\<close> reads.
\<close>

record App =
  status :: CallStatus
  talkMode :: TalkMode
  isMuted :: bool
  isAgentSpeaking :: bool
  isUserSpeaking :: bool
  isPTTActive :: bool
  error :: "string option"
  audioLevel :: jsnum
  retellClient :: "client_op list"
  keydown_isMuted :: bool

text \<open>The state at mount: the initial values of the hooks, nothing invoked yet.\<close>

definition App_init :: App where
  "App_init =
     \<lparr>status = Idle, talkMode = Continuous, isMuted = False, isAgentSpeaking = False,
      isUserSpeaking = False, isPTTActive = False, error = None, audioLevel = Fin 0,
      retellClient = [], keydown_isMuted = False\<rparr>"

subsection \<open>Handlers of the client's events\<close>

definition on_call_started :: "App \<Rightarrow> App" where
  "on_call_started s = s\<lparr>status := Connected, error := None\<rparr>"

definition on_call_ended :: "App \<Rightarrow> App" where
  "on_call_ended s =
     s\<lparr>status := Idle, isAgentSpeaking := False, isUserSpeaking := False, isMuted := False\<rparr>"

definition on_agent_start_talking :: "App \<Rightarrow> App" where
  "on_agent_start_talking s = s\<lparr>isAgentSpeaking := True\<rparr>"

definition on_agent_stop_talking :: "App \<Rightarrow> App" where
  "on_agent_stop_talking s = s\<lparr>isAgentSpeaking := False\<rparr>"

definition on_error :: "App \<Rightarrow> App" where
  "on_error s = s\<lparr>error := Some ''Connection error. Please try again.'', status := Error\<rparr>"

text \<open>
  The \<open>audio\<close> handler: \<open>reduce\<close> with the initial value 0 over the samples, the
  division by \<open>audio.length\<close>, and \<open>Math.min(avg * 10, 1)\<close>.
\<close>

definition audio_sum :: "jsnum list \<Rightarrow> jsnum" where
  "audio_sum audio = foldl (\<lambda>acc val. js_add acc (js_abs val)) (Fin 0) audio"

definition audio_avg :: "jsnum list \<Rightarrow> jsnum" where
  "audio_avg audio = js_div (audio_sum audio) (Fin (real (length audio)))"

definition on_audio :: "jsnum list \<Rightarrow> App \<Rightarrow> App" where
  "on_audio audio s = s\<lparr>audioLevel := js_min (js_mul (audio_avg audio) (Fin 10)) (Fin 1)\<rparr>"

subsection \<open>Starting and stopping\<close>

definition requestMicPermission :: "mic_outcome \<Rightarrow> bool" where
  "requestMicPermission m = (case m of MicGranted \<Rightarrow> True | _ \<Rightarrow> False)"

text \<open>
  \<open>startCall\<close> runs up to its first \<open>await\<close>, and later resumes with what the
  environment answered. Between the two, handlers of other events may run.
\<close>

definition startCall_enter :: "App \<Rightarrow> App" where
  "startCall_enter s = s\<lparr>status := Connecting, error := None\<rparr>"

definition startCall_catch :: "App \<Rightarrow> App" where
  "startCall_catch s =
     s\<lparr>error := Some ''Failed to connect. Check your microphone permissions.'',
       status := Error\<rparr>"

definition startCall_resume :: "start_env \<Rightarrow> App \<Rightarrow> App" where
  "startCall_resume env s =
     (if \<not> requestMicPermission (mic env) then
        s\<lparr>error := Some ''Microphone access denied. Please allow microphone in your browser settings.'',
          status := Error\<rparr>
      else
        (case registerCall (fetched env) of
           Inl e \<Rightarrow> startCall_catch s
         | Inr JNull \<Rightarrow> startCall_catch s
         | Inr (JObject access_token) \<Rightarrow>
             (let s' = s\<lparr>retellClient := retellClient s @ [StartCall access_token True]\<rparr>
              in if startResolves env then s' else startCall_catch s')))"

definition startCall :: "start_env \<Rightarrow> App \<Rightarrow> App" where
  "startCall env s = startCall_resume env (startCall_enter s)"

definition stopCall :: "App \<Rightarrow> App" where
  "stopCall s = s\<lparr>retellClient := retellClient s @ [StopCall], status := Idle\<rparr>"

subsection \<open>Mute, push-to-talk and the talk mode\<close>

text \<open>
  \<open>toggleMute\<close> reads the \<open>isMuted\<close> of the render that created it, its first argument
  here, and updates the current state.
\<close>

definition toggleMute :: "bool \<Rightarrow> App \<Rightarrow> App" where
  "toggleMute isMuted_seen s =
     (if isMuted_seen then s\<lparr>retellClient := retellClient s @ [Unmute], isMuted := False\<rparr>
      else s\<lparr>retellClient := retellClient s @ [Mute], isMuted := True\<rparr>)"

definition handlePTTStart :: "App \<Rightarrow> App" where
  "handlePTTStart s =
     (if status s \<noteq> Connected \<or> talkMode s \<noteq> PushToTalk then s
      else s\<lparr>isPTTActive := True, retellClient := retellClient s @ [Unmute]\<rparr>)"

definition handlePTTEnd :: "App \<Rightarrow> App" where
  "handlePTTEnd s =
     (if talkMode s \<noteq> PushToTalk then s
      else s\<lparr>isPTTActive := False, retellClient := retellClient s @ [Mute]\<rparr>)"

definition switchMode :: "TalkMode \<Rightarrow> App \<Rightarrow> App" where
  "switchMode mode s =
     (let s' = s\<lparr>talkMode := mode\<rparr> in
      if status s = Connected then
        (if mode = PushToTalk then s'\<lparr>retellClient := retellClient s @ [Mute], isMuted := True\<rparr>
         else s'\<lparr>retellClient := retellClient s @ [Unmute], isMuted := False\<rparr>)
      else s')"

subsection \<open>Keyboard and pointer\<close>

text \<open>
  Of a keyboard event the handlers read \<open>code\<close> only; \<open>repeat\<close> is the flag the browser
  sets on the events it generates while a key is held down.
\<close>

datatype KeyboardEvent = KeyboardEvent (key_code: string) (key_repeat: bool)

definition handleKeyDown :: "KeyboardEvent \<Rightarrow> App \<Rightarrow> App" where
  "handleKeyDown e s =
     (let s1 = (if key_code e = ''Space'' \<and> talkMode s = PushToTalk \<and> status s = Connected
                then handlePTTStart s else s)
      in if key_code e = ''KeyM'' \<and> status s = Connected
         then toggleMute (keydown_isMuted s) s1 else s1)"

definition handleKeyUp :: "KeyboardEvent \<Rightarrow> App \<Rightarrow> App" where
  "handleKeyUp e s =
     (if key_code e = ''Space'' \<and> talkMode s = PushToTalk then handlePTTEnd s else s)"

text \<open>The main button: \<open>onClick\<close> and the press handlers, attached in push-to-talk mode only.\<close>

definition clickMainButton :: "App \<Rightarrow> App" where
  "clickMainButton s =
     (if status s = Idle \<or> status s = Error then startCall_enter s else stopCall s)"

definition pressMainButton :: "App \<Rightarrow> App" where
  "pressMainButton s = (if talkMode s = PushToTalk then handlePTTStart s else s)"

definition releaseMainButton :: "App \<Rightarrow> App" where
  "releaseMainButton s = (if talkMode s = PushToTalk then handlePTTEnd s else s)"

text \<open>The mute button is rendered only during a call in continuous mode.\<close>

definition muteButtonRendered :: "App \<Rightarrow> bool" where
  "muteButtonRendered s = (status s = Connected \<and> talkMode s = Continuous)"

definition clickMuteButton :: "App \<Rightarrow> App" where
  "clickMuteButton s = (if muteButtonRendered s then toggleMute (isMuted s) s else s)"

text \<open>Every way the component's state can change: one event, one user input, or a resumed start.\<close>

datatype action =
    Ev_call_started | Ev_call_ended | Ev_agent_start_talking | Ev_agent_stop_talking
  | Ev_error | Ev_audio "jsnum list"
  | ClickMain | ResumeStart start_env
  | MouseDown | MouseUp | MouseLeave | TouchStart | TouchEnd
  | ClickMode TalkMode | ClickMute
  | KeyDown KeyboardEvent | KeyUp KeyboardEvent

fun handle :: "action \<Rightarrow> App \<Rightarrow> App" where
  "handle Ev_call_started s = on_call_started s"
| "handle Ev_call_ended s = on_call_ended s"
| "handle Ev_agent_start_talking s = on_agent_start_talking s"
| "handle Ev_agent_stop_talking s = on_agent_stop_talking s"
| "handle Ev_error s = on_error s"
| "handle (Ev_audio audio) s = on_audio audio s"
| "handle ClickMain s = clickMainButton s"
| "handle (ResumeStart env) s = startCall_resume env s"
| "handle MouseDown s = pressMainButton s"
| "handle MouseUp s = releaseMainButton s"
| "handle MouseLeave s = releaseMainButton s"
| "handle TouchStart s = pressMainButton s"
| "handle TouchEnd s = releaseMainButton s"
| "handle (ClickMode mode) s = switchMode mode s"
| "handle ClickMute s = clickMuteButton s"
| "handle (KeyDown e) s = handleKeyDown e s"
| "handle (KeyUp e) s = handleKeyUp e s"

text \<open>
  After the render that follows a handler, the keyboard effect runs again when one of
  its dependencies changed: \<open>handlePTTStart\<close> and \<open>handlePTTEnd\<close> are memoised on
  \<open>status\<close> and \<open>talkMode\<close>, so that is when \<open>talkMode\<close> or \<open>status\<close> changed.
\<close>

definition keyboard_effect :: "App \<Rightarrow> App \<Rightarrow> App" where
  "keyboard_effect prev s =
     (if talkMode s = talkMode prev \<and> status s = status prev then s
      else s\<lparr>keydown_isMuted := isMuted s\<rparr>)"

definition step :: "action \<Rightarrow> App \<Rightarrow> App" where
  "step a s = keyboard_effect s (handle a s)"

section \<open>The variant with one flag \<open>isCalling\<close>\<close>

text \<open>
  Its hooks and handlers carry the suffix \<open>_b\<close>, since the three variants use the same
  names. It has no microphone probe, no mute and no talk mode.
\<close>

record App_b =
  isCalling_b :: bool
  isAgentSpeaking_b :: bool
  error_b :: "string option"
  retellWebClient_b :: "client_op list"

definition on_call_started_b :: "App_b \<Rightarrow> App_b" where
  "on_call_started_b s = s\<lparr>error_b := None\<rparr>"

definition on_call_ended_b :: "App_b \<Rightarrow> App_b" where
  "on_call_ended_b s = s\<lparr>isCalling_b := False, isAgentSpeaking_b := False\<rparr>"

definition on_agent_start_talking_b :: "App_b \<Rightarrow> App_b" where
  "on_agent_start_talking_b s = s\<lparr>isAgentSpeaking_b := True\<rparr>"

definition on_agent_stop_talking_b :: "App_b \<Rightarrow> App_b" where
  "on_agent_stop_talking_b s = s\<lparr>isAgentSpeaking_b := False\<rparr>"

definition on_error_b :: "App_b \<Rightarrow> App_b" where
  "on_error_b s =
     s\<lparr>error_b := Some ''Connection error. Please try again.'',
       retellWebClient_b := retellWebClient_b s @ [StopCall],
       isCalling_b := False\<rparr>"

definition toggleConversation_catch_b :: "App_b \<Rightarrow> App_b" where
  "toggleConversation_catch_b s =
     s\<lparr>error_b := Some ''Failed to connect. Check microphone permissions.''\<rparr>"

text \<open>
  \<open>toggleConversation\<close>, run to its end with the answers of the environment. Reading
  \<open>access_token\<close> of \<open>null\<close> throws inside the \<open>try\<close>.
\<close>

definition toggleConversation_b :: "start_env \<Rightarrow> App_b \<Rightarrow> App_b" where
  "toggleConversation_b env s =
     (if isCalling_b s then s\<lparr>retellWebClient_b := retellWebClient_b s @ [StopCall]\<rparr>
      else
        (let s0 = s\<lparr>error_b := None\<rparr> in
         case registerCall (fetched env) of
           Inl e \<Rightarrow> toggleConversation_catch_b s0
         | Inr JNull \<Rightarrow> toggleConversation_catch_b s0
         | Inr (JObject access_token) \<Rightarrow>
             if truthy access_token then
               (let s1 = s0\<lparr>retellWebClient_b :=
                              retellWebClient_b s0 @ [StartCall access_token False]\<rparr>
                in if startResolves env then s1\<lparr>isCalling_b := True\<rparr>
                   else toggleConversation_catch_b s1)
             else s0))"

section \<open>The variant with several flags\<close>

text \<open>Its hooks and handlers carry the suffix \<open>_m\<close> where a name is taken already.\<close>

record App_m =
  isCalling_m :: bool
  hasError :: bool
  isTransitioning :: bool
  isCheckingMic :: bool
  isMuted_m :: bool
  errorDetail :: string
  retellWebClient_m :: "client_op list"

definition on_call_started_m :: "App_m \<Rightarrow> App_m" where
  "on_call_started_m s = s\<lparr>hasError := False, isTransitioning := False, isCheckingMic := False\<rparr>"

definition on_call_ended_m :: "App_m \<Rightarrow> App_m" where
  "on_call_ended_m s =
     s\<lparr>isCalling_m := False, hasError := False, isTransitioning := False, isMuted_m := False\<rparr>"

definition on_error_m :: "App_m \<Rightarrow> App_m" where
  "on_error_m s =
     s\<lparr>hasError := True,
       retellWebClient_m := retellWebClient_m s @ [StopCall],
       isCalling_m := False, isTransitioning := False, isCheckingMic := False\<rparr>"

text \<open>\<open>checkMicrophonePermission\<close> returns its verdict and records the detail of a failure.\<close>

definition checkMicrophonePermission :: "mic_outcome \<Rightarrow> App_m \<Rightarrow> App_m \<times> bool" where
  "checkMicrophonePermission m s =
     (case m of
        MicUnsupported \<Rightarrow> (s\<lparr>errorDetail := ''mediaDevices not supported''\<rparr>, False)
      | MicGranted \<Rightarrow> (s\<lparr>errorDetail := []\<rparr>, True)
      | MicRejected name message \<Rightarrow> (s\<lparr>errorDetail := name @ '': '' @ message\<rparr>, False))"

definition toggleConversation_catch_m :: "App_m \<Rightarrow> App_m" where
  "toggleConversation_catch_m s = s\<lparr>hasError := True, isTransitioning := False\<rparr>"

definition toggleConversation_m :: "start_env \<Rightarrow> App_m \<Rightarrow> App_m" where
  "toggleConversation_m env s =
     (if isTransitioning s \<or> isCheckingMic s then s
      else if isCalling_m s then
        s\<lparr>isTransitioning := True, retellWebClient_m := retellWebClient_m s @ [StopCall]\<rparr>
      else
        (case checkMicrophonePermission (mic env) (s\<lparr>isCheckingMic := True\<rparr>) of
           (s1, hasMicPermission) \<Rightarrow>
             if \<not> hasMicPermission then s1\<lparr>hasError := True, isCheckingMic := False\<rparr>
             else
               (let s2 = s1\<lparr>isTransitioning := True, hasError := False\<rparr>;
                    s3 = (case registerCall (fetched env) of
                            Inl e \<Rightarrow> toggleConversation_catch_m s2
                          | Inr JNull \<Rightarrow> toggleConversation_catch_m s2
                          | Inr (JObject access_token) \<Rightarrow>
                              if truthy access_token then
                                (let s' = s2\<lparr>retellWebClient_m :=
                                               retellWebClient_m s2 @ [StartCall access_token False]\<rparr>
                                 in if startResolves env then s'\<lparr>isCalling_m := True\<rparr>
                                    else toggleConversation_catch_m s')
                              else s2)
                in s3\<lparr>isCheckingMic := False\<rparr>)))"

definition toggleMute_m :: "App_m \<Rightarrow> App_m" where
  "toggleMute_m s =
     (if \<not> isCalling_m s then s
      else if isMuted_m s then
        s\<lparr>retellWebClient_m := retellWebClient_m s @ [Unmute], isMuted_m := False\<rparr>
      else s\<lparr>retellWebClient_m := retellWebClient_m s @ [Mute], isMuted_m := True\<rparr>)"

text \<open>The \<open>disabled\<close> attribute of the start button.\<close>

definition startButtonDisabled :: "App_m \<Rightarrow> bool" where
  "startButtonDisabled s = (isTransitioning s \<or> isCheckingMic s)"

section \<open>Runs and initial states\<close>

text \<open>A run applies a sequence of events and inputs, the first of the list first.\<close>

definition run :: "action list \<Rightarrow> App \<Rightarrow> App" where
  "run acts s = foldl (\<lambda>s a. step a s) s acts"

text \<open>The states of the two other variants at mount.\<close>

definition App_b_init :: App_b where
  "App_b_init =
     \<lparr>isCalling_b = False, isAgentSpeaking_b = False, error_b = None, retellWebClient_b = []\<rparr>"

definition App_m_init :: App_m where
  "App_m_init =
     \<lparr>isCalling_m = False, hasError = False, isTransitioning = False, isCheckingMic = False,
      isMuted_m = False, errorDetail = [], retellWebClient_m = []\<rparr>"

section \<open>Properties\<close>

lemmas handler_defs =
  on_call_started_def on_call_ended_def on_agent_start_talking_def on_agent_stop_talking_def
  on_error_def on_audio_def startCall_enter_def startCall_catch_def startCall_resume_def
  startCall_def stopCall_def toggleMute_def handlePTTStart_def handlePTTEnd_def switchMode_def
  handleKeyDown_def handleKeyUp_def clickMainButton_def pressMainButton_def
  releaseMainButton_def muteButtonRendered_def clickMuteButton_def

lemmas run_defs = run_def step_def keyboard_effect_def handler_defs

lemma status_keyboard_effect [simp]: "status (keyboard_effect prev s) = status s"
  by (simp add: keyboard_effect_def)

subsection \<open>The end of a call\<close>

text \<open>
  C1. The claim: whatever the state before, handling \<open>call_ended\<close> leaves \<open>status = idle\<close>
  and \<open>isMuted\<close>, \<open>isAgentSpeaking\<close> and \<open>isPTTActive\<close> false. The handler of the variant
  with the enumerated status resets \<open>isUserSpeaking\<close>, which nothing ever sets, and does
  not touch \<open>isPTTActive\<close>. In the run below the user selects push-to-talk, starts a call,
  holds the space bar once the call is connected, and the call ends while the key is
  down: \<open>isPTTActive\<close> is still true afterwards.
\<close>

theorem call_ended_leaves_isPTTActive:
  "run [ClickMode PushToTalk, ClickMain,
        ResumeStart \<lparr>mic = MicGranted,
                     fetched = Response 200 (Json (JObject (Some ''tok123''))),
                     startResolves = True\<rparr>,
        Ev_call_started, KeyDown (KeyboardEvent ''Space'' False), Ev_call_ended] App_init =
   \<lparr>status = Idle, talkMode = PushToTalk, isMuted = False, isAgentSpeaking = False,
    isUserSpeaking = False, isPTTActive = True, error = None, audioLevel = Fin 0,
    retellClient = [StartCall (Some ''tok123'') True, Unmute], keydown_isMuted = False\<rparr>"
  by (simp add: App_init_def run_defs requestMicPermission_def registerCall_def response_ok_def)

text \<open>The flags the handler does name are reset from every state, in both variants that mute.\<close>

lemma on_call_ended_resets:
  "status (on_call_ended s) = Idle"
  "\<not> isMuted (on_call_ended s)"
  "\<not> isAgentSpeaking (on_call_ended s)"
  "\<not> isUserSpeaking (on_call_ended s)"
  "isPTTActive (on_call_ended s) = isPTTActive s"
  "on_call_ended (on_call_ended s) = on_call_ended s"
  by (simp_all add: on_call_ended_def)

lemma on_call_ended_m_resets:
  "\<not> isCalling_m (on_call_ended_m t)"
  "\<not> hasError (on_call_ended_m t)"
  "\<not> isTransitioning (on_call_ended_m t)"
  "\<not> isMuted_m (on_call_ended_m t)"
  by (simp_all add: on_call_ended_m_def)

subsection \<open>An error of the client during a call\<close>

text \<open>
  C2. The claim: from a state with \<open>status = connected\<close>, the \<open>error\<close> handler invokes the
  client's \<open>stopCall\<close>, sets \<open>status = error\<close> with a message, and resets
  \<open>isAgentSpeaking\<close> and \<open>isMuted\<close>. In the variant with the enumerated status the handler
  sets the message and the status and nothing else: in a connected call that is muted
  while the agent speaks, no operation is invoked on the client and both flags stay true.
\<close>

theorem on_error_connected_no_stop:
  "on_error \<lparr>status = Connected, talkMode = Continuous, isMuted = True, isAgentSpeaking = True,
             isUserSpeaking = False, isPTTActive = False, error = None, audioLevel = Fin 0,
             retellClient = [StartCall (Some ''tok123'') True, Mute],
             keydown_isMuted = False\<rparr> =
   \<lparr>status = Error, talkMode = Continuous, isMuted = True, isAgentSpeaking = True,
    isUserSpeaking = False, isPTTActive = False,
    error = Some ''Connection error. Please try again.'', audioLevel = Fin 0,
    retellClient = [StartCall (Some ''tok123'') True, Mute], keydown_isMuted = False\<rparr>"
  by (simp add: on_error_def)

text \<open>That state is the one a started call is in after the agent began to talk and the user muted.\<close>

lemma on_error_input_reached:
  "run [ClickMain,
        ResumeStart \<lparr>mic = MicGranted,
                     fetched = Response 200 (Json (JObject (Some ''tok123''))),
                     startResolves = True\<rparr>,
        Ev_call_started, Ev_agent_start_talking, ClickMute] App_init =
   \<lparr>status = Connected, talkMode = Continuous, isMuted = True, isAgentSpeaking = True,
    isUserSpeaking = False, isPTTActive = False, error = None, audioLevel = Fin 0,
    retellClient = [StartCall (Some ''tok123'') True, Mute], keydown_isMuted = False\<rparr>"
  by (simp add: App_init_def run_defs requestMicPermission_def registerCall_def response_ok_def)

text \<open>The \<open>error\<close> handlers of the two other variants do stop the call.\<close>

lemma on_error_siblings_stop:
  "retellWebClient_b (on_error_b t) = retellWebClient_b t @ [StopCall]"
  "retellWebClient_m (on_error_m u) = retellWebClient_m u @ [StopCall]"
  by (simp_all add: on_error_b_def on_error_m_def)

subsection \<open>Starting in push-to-talk mode\<close>

text \<open>
  C3. The claim: a start requested while \<open>talkMode\<close> is push-to-talk gives a session that
  is muted when the call becomes connected. Neither \<open>startCall\<close> nor the \<open>call_started\<close>
  handler looks at \<open>talkMode\<close>: after selecting push-to-talk and starting a call that
  connects, \<open>isMuted\<close> is false and the only operation invoked on the client is
  \<open>startCall\<close>. (Switching to push-to-talk during a call does mute, see \<open>switchMode\<close>.)
\<close>

theorem push_to_talk_start_not_muted:
  "run [ClickMode PushToTalk, ClickMain,
        ResumeStart \<lparr>mic = MicGranted,
                     fetched = Response 200 (Json (JObject (Some ''tok123''))),
                     startResolves = True\<rparr>,
        Ev_call_started] App_init =
   \<lparr>status = Connected, talkMode = PushToTalk, isMuted = False, isAgentSpeaking = False,
    isUserSpeaking = False, isPTTActive = False, error = None, audioLevel = Fin 0,
    retellClient = [StartCall (Some ''tok123'') True], keydown_isMuted = False\<rparr>"
  by (simp add: App_init_def run_defs requestMicPermission_def registerCall_def response_ok_def)

subsection \<open>The audio level\<close>

text \<open>
  C4. The claim: an \<open>audio\<close> event with an empty buffer gives \<open>audioLevel = 0\<close> without
  throwing, and no division by zero. The handler divides the sum by \<open>audio.length\<close>
  unguarded: on the empty buffer that is zero by zero, NaN, which \<open>Math.min\<close> passes on.
  Nothing is thrown, and the level stored is NaN, not 0. Every operation on this path is
  exact, so the rounding left out of \<open>jsnum\<close> plays no part.
\<close>

theorem on_audio_empty_NaN: "audioLevel (on_audio [] s) = NaN"
  by (simp add: on_audio_def audio_avg_def audio_sum_def)

subsection \<open>Toggling mute\<close>

text \<open>
  Outside a connected call \<open>toggleMute\<close> is out of reach: the handler of the M key calls
  it only when \<open>status = connected\<close>, and the mute button is rendered only when
  \<open>status = connected\<close> in continuous mode. Both inputs leave every other state as it is.
\<close>

lemma toggleMute_unreachable_unless_connected:
  assumes "status s \<noteq> Connected"
  shows "step (KeyDown (KeyboardEvent ''KeyM'' r)) s = s" and "step ClickMute s = s"
  using assms
  by (simp_all add: step_def keyboard_effect_def handleKeyDown_def clickMuteButton_def
      muteButtonRendered_def)

text \<open>
  The mute button calls the \<open>toggleMute\<close> of the render that shows it: where the button
  is rendered, a click invokes mute or unmute and flips \<open>isMuted\<close>.
\<close>

lemma clickMuteButton_flips:
  assumes "status s = Connected" and "talkMode s = Continuous"
  shows "clickMuteButton s =
           s\<lparr>retellClient := retellClient s @ [if isMuted s then Unmute else Mute],
             isMuted := \<not> isMuted s\<rparr>"
  using assms by (simp add: clickMuteButton_def muteButtonRendered_def toggleMute_def)

text \<open>
  In the variant with several flags \<open>toggleMute\<close> itself returns at once unless
  \<open>isCalling\<close>, and otherwise invokes mute or unmute and flips \<open>isMuted\<close>.
\<close>

lemma toggleMute_m_guarded:
  "toggleMute_m t =
     (if isCalling_m t
      then t\<lparr>retellWebClient_m := retellWebClient_m t @ [if isMuted_m t then Unmute else Mute],
             isMuted_m := \<not> isMuted_m t\<rparr>
      else t)"
  by (simp add: toggleMute_m_def)

text \<open>
  C5. The claim: outside \<open>status = connected\<close>, \<open>toggleMute\<close> does nothing; during a
  connected call it invokes the client's mute or unmute and flips \<open>isMuted\<close>. In the
  variant with the enumerated status, the \<open>toggleMute\<close> that the M key reaches is the one
  of the render in which the keyboard effect last ran, since the effect does not list it
  among its dependencies. During a call in one talk mode it keeps reading the \<open>isMuted\<close>
  of that render. In the run below a call is started and connects, and M is pressed
  twice: the first press mutes; the second, in a connected call with \<open>isMuted\<close> true,
  invokes mute again and leaves \<open>isMuted\<close> true, where the claim has it invoke unmute and
  flip \<open>isMuted\<close> to false.
\<close>

theorem key_M_twice_mutes_twice:
  "run [ClickMain,
        ResumeStart \<lparr>mic = MicGranted,
                     fetched = Response 200 (Json (JObject (Some ''tok123''))),
                     startResolves = True\<rparr>,
        Ev_call_started,
        KeyDown (KeyboardEvent ''KeyM'' False), KeyDown (KeyboardEvent ''KeyM'' False)] App_init =
   \<lparr>status = Connected, talkMode = Continuous, isMuted = True, isAgentSpeaking = False,
    isUserSpeaking = False, isPTTActive = False, error = None, audioLevel = Fin 0,
    retellClient = [StartCall (Some ''tok123'') True, Mute, Mute], keydown_isMuted = False\<rparr>"
  by (simp add: App_init_def run_defs requestMicPermission_def registerCall_def response_ok_def)

text \<open>The state in which the second press arrives: connected and muted by the first press.\<close>

lemma key_M_once_mutes:
  "run [ClickMain,
        ResumeStart \<lparr>mic = MicGranted,
                     fetched = Response 200 (Json (JObject (Some ''tok123''))),
                     startResolves = True\<rparr>,
        Ev_call_started,
        KeyDown (KeyboardEvent ''KeyM'' False)] App_init =
   \<lparr>status = Connected, talkMode = Continuous, isMuted = True, isAgentSpeaking = False,
    isUserSpeaking = False, isPTTActive = False, error = None, audioLevel = Fin 0,
    retellClient = [StartCall (Some ''tok123'') True, Mute], keydown_isMuted = False\<rparr>"
  by (simp add: App_init_def run_defs requestMicPermission_def registerCall_def response_ok_def)

subsection \<open>Becoming connected\<close>

text \<open>
  C6, as stated: no start sets \<open>status\<close> to connected, or \<open>isCalling\<close> to true, by itself.
  In the variant with the single flag, \<open>toggleConversation\<close> sets \<open>isCalling\<close> once the
  client's \<open>startCall\<close> has resolved, with no \<open>call_started\<close> event handled.
\<close>

theorem toggleConversation_b_sets_isCalling:
  "\<not> isCalling_b App_b_init
   \<and> isCalling_b (toggleConversation_b
        \<lparr>mic = MicGranted, fetched = Response 200 (Json (JObject (Some ''tok123''))),
         startResolves = True\<rparr> App_b_init)"
  by (simp add: App_b_init_def toggleConversation_b_def registerCall_def response_ok_def
      truthy_def)

lemma startCall_resume_status:
  "status (startCall_resume env s) = Connected \<Longrightarrow> status s = Connected"
  by (auto simp: startCall_resume_def startCall_catch_def Let_def
      split: if_splits sum.splits json_value.splits)

lemma handle_status_connected:
  assumes "status s \<noteq> Connected" and "status (handle a s) = Connected"
  shows "a = Ev_call_started"
proof (cases a)
  case (ResumeStart env)
  with assms startCall_resume_status [of env s] show ?thesis by simp
next
  case (ClickMode mode)
  with assms show ?thesis by (simp add: switchMode_def Let_def split: if_splits)
next
  case (KeyDown e)
  with assms show ?thesis
    by (simp add: handleKeyDown_def handlePTTStart_def toggleMute_def Let_def split: if_splits)
qed (use assms in \<open>simp_all add: handler_defs split: if_splits\<close>)

text \<open>
  C6, amended: in the variant with the enumerated status, \<open>startCall\<close> never leaves
  \<open>status\<close> connected, and of all events and inputs only \<open>call_started\<close> takes \<open>status\<close>
  from another value to connected. In the variant with the single flag the
  \<open>call_started\<close> handler leaves \<open>isCalling\<close> as it is, and \<open>toggleConversation\<close> sets it
  itself once a registration with a truthy token is followed by a \<open>startCall\<close> that
  resolves.
\<close>

theorem connected_only_by_call_started:
  "status (startCall env s) \<noteq> Connected
   \<and> (status s \<noteq> Connected \<and> status (step a s) = Connected \<longrightarrow> a = Ev_call_started)
   \<and> status (step Ev_call_started s) = Connected
   \<and> isCalling_b (on_call_started_b t) = isCalling_b t
   \<and> (\<not> isCalling_b t \<and> registerCall (fetched env) = Inr (JObject tok) \<and> truthy tok
        \<and> startResolves env \<longrightarrow> isCalling_b (toggleConversation_b env t))"
proof -
  have "status (startCall env s) \<noteq> Connected"
    using startCall_resume_status [of env "startCall_enter s"]
    by (auto simp: startCall_def startCall_enter_def)
  moreover have "status s \<noteq> Connected \<and> status (step a s) = Connected \<longrightarrow> a = Ev_call_started"
    using handle_status_connected [of s a] by (simp add: step_def)
  moreover have "status (step Ev_call_started s) = Connected"
    by (simp add: step_def on_call_started_def)
  moreover have "isCalling_b (on_call_started_b t) = isCalling_b t"
    by (simp add: on_call_started_b_def)
  moreover have "\<not> isCalling_b t \<and> registerCall (fetched env) = Inr (JObject tok) \<and> truthy tok
        \<and> startResolves env \<longrightarrow> isCalling_b (toggleConversation_b env t)"
    by (simp add: toggleConversation_b_def Let_def)
  ultimately show ?thesis by blast
qed

theorem connected_only_by_call_started_witness:
  "status App_init \<noteq> Connected
   \<and> status (step Ev_call_started App_init) = Connected
   \<and> status (startCall \<lparr>mic = MicGranted,
                         fetched = Response 200 (Json (JObject (Some ''tok123''))),
                         startResolves = True\<rparr> App_init) \<noteq> Connected
   \<and> \<not> isCalling_b App_b_init
   \<and> registerCall (fetched \<lparr>mic = MicGranted,
                         fetched = Response 200 (Json (JObject (Some ''tok123''))),
                         startResolves = True\<rparr>) = Inr (JObject (Some ''tok123''))
   \<and> truthy (Some ''tok123'')
   \<and> isCalling_b (toggleConversation_b \<lparr>mic = MicGranted,
                         fetched = Response 200 (Json (JObject (Some ''tok123''))),
                         startResolves = True\<rparr> App_b_init)"
  using connected_only_by_call_started [of
      "\<lparr>mic = MicGranted, fetched = Response 200 (Json (JObject (Some ''tok123''))),
        startResolves = True\<rparr>" App_init Ev_call_started App_b_init "Some ''tok123''"]
  by (simp add: App_init_def App_b_init_def registerCall_def response_ok_def truthy_def)

subsection \<open>Switching the talk mode during a call\<close>

text \<open>
  C7. From every state with \<open>status = connected\<close>, \<open>switchMode\<close> with push-to-talk invokes
  the client's mute and leaves \<open>isMuted\<close> true, and with continuous invokes unmute and
  leaves \<open>isMuted\<close> false. In both cases the call goes on: \<open>status\<close> stays connected and
  the one operation invoked on the client is the mute or unmute.
\<close>

theorem switchMode_connected:
  assumes "status s = Connected"
  shows "isMuted (switchMode PushToTalk s)
     \<and> retellClient (switchMode PushToTalk s) = retellClient s @ [Mute]
     \<and> \<not> isMuted (switchMode Continuous s)
     \<and> retellClient (switchMode Continuous s) = retellClient s @ [Unmute]
     \<and> status (switchMode mode s) = Connected
     \<and> talkMode (switchMode mode s) = mode"
  using assms by (simp add: switchMode_def Let_def)

theorem switchMode_connected_witness:
  "status (App_init\<lparr>status := Connected\<rparr>) = Connected
   \<and> isMuted (switchMode PushToTalk (App_init\<lparr>status := Connected\<rparr>))
   \<and> retellClient (switchMode PushToTalk (App_init\<lparr>status := Connected\<rparr>)) = [Mute]
   \<and> \<not> isMuted (switchMode Continuous (App_init\<lparr>status := Connected\<rparr>))
   \<and> retellClient (switchMode Continuous (App_init\<lparr>status := Connected\<rparr>)) = [Unmute]
   \<and> status (switchMode PushToTalk (App_init\<lparr>status := Connected\<rparr>)) = Connected"
  using switchMode_connected [of "App_init\<lparr>status := Connected\<rparr>" PushToTalk]
  by (simp add: App_init_def)

subsection \<open>A registration that fails\<close>

text \<open>
  C8. When \<open>startCall\<close> runs from \<open>status = idle\<close>, the microphone is granted and the
  registration answers with a status outside 200 to 299, \<open>status\<close> goes from idle to
  connecting to error, \<open>error\<close> holds a message that is not empty, and nothing is invoked
  on the client: its \<open>startCall\<close> is never reached.
\<close>

theorem startCall_registration_rejected:
  assumes "status s = Idle"
    and "mic env = MicGranted"
    and "fetched env = Response code body"
    and "code < 200 \<or> 299 < code"
  shows "map status [s, startCall_enter s, startCall env s] = [Idle, Connecting, Error]
     \<and> error (startCall env s) = Some ''Failed to connect. Check your microphone permissions.''
     \<and> error (startCall env s) \<noteq> None \<and> error (startCall env s) \<noteq> Some []
     \<and> retellClient (startCall env s) = retellClient s"
  using assms
  by (auto simp: startCall_def startCall_enter_def startCall_resume_def startCall_catch_def
      requestMicPermission_def registerCall_def response_ok_def)

theorem startCall_registration_rejected_witness:
  "map status [App_init,
               startCall_enter App_init,
               startCall \<lparr>mic = MicGranted, fetched = Response 500 NotJson,
                          startResolves = True\<rparr> App_init] = [Idle, Connecting, Error]
   \<and> error (startCall \<lparr>mic = MicGranted, fetched = Response 500 NotJson,
                        startResolves = True\<rparr> App_init)
       = Some ''Failed to connect. Check your microphone permissions.''
   \<and> retellClient (startCall \<lparr>mic = MicGranted, fetched = Response 500 NotJson,
                        startResolves = True\<rparr> App_init) = []"
  using startCall_registration_rejected [of App_init
      "\<lparr>mic = MicGranted, fetched = Response 500 NotJson, startResolves = True\<rparr>" 500 NotJson]
  by (simp add: App_init_def)

subsection \<open>The push-to-talk key\<close>

text \<open>
  C9, as stated: while \<open>isPTTActive\<close> is true, a repeated key-down of the held key does
  not run the press action again and does not invoke unmute again. \<open>handleKeyDown\<close>
  reads neither \<open>repeat\<close> nor \<open>isPTTActive\<close>: in a call switched to push-to-talk, the
  key-down that starts a press invokes unmute, and the key-repeat after it invokes
  unmute once more.
\<close>

theorem key_repeat_unmutes_again:
  "run [ClickMain,
        ResumeStart \<lparr>mic = MicGranted,
                     fetched = Response 200 (Json (JObject (Some ''tok123''))),
                     startResolves = True\<rparr>,
        Ev_call_started, ClickMode PushToTalk,
        KeyDown (KeyboardEvent ''Space'' False), KeyDown (KeyboardEvent ''Space'' True)] App_init =
   \<lparr>status = Connected, talkMode = PushToTalk, isMuted = True, isAgentSpeaking = False,
    isUserSpeaking = False, isPTTActive = True, error = None, audioLevel = Fin 0,
    retellClient = [StartCall (Some ''tok123'') True, Mute, Unmute, Unmute],
    keydown_isMuted = True\<rparr>"
  by (simp add: App_init_def run_defs requestMicPermission_def registerCall_def response_ok_def)

lemma step_KeyDown_Space:
  assumes "status s = Connected" and "talkMode s = PushToTalk"
  shows "step (KeyDown (KeyboardEvent ''Space'' r)) s =
           s\<lparr>isPTTActive := True, retellClient := retellClient s @ [Unmute]\<rparr>"
  using assms by (simp add: step_def keyboard_effect_def handleKeyDown_def handlePTTStart_def)

lemma run_key_repeats:
  assumes "status s = Connected" and "talkMode s = PushToTalk"
  shows "run (replicate (Suc n) (KeyDown (KeyboardEvent ''Space'' True))) s =
           s\<lparr>isPTTActive := True, retellClient := retellClient s @ replicate (Suc n) Unmute\<rparr>"
  using assms
proof (induction n arbitrary: s)
  case 0
  then show ?case by (simp add: run_def step_KeyDown_Space)
next
  case (Suc n)
  let ?s1 = "s\<lparr>isPTTActive := True, retellClient := retellClient s @ [Unmute]\<rparr>"
  have "run (replicate (Suc (Suc n)) (KeyDown (KeyboardEvent ''Space'' True))) s =
        run (replicate (Suc n) (KeyDown (KeyboardEvent ''Space'' True))) ?s1"
    using Suc.prems by (simp add: run_def step_KeyDown_Space)
  also have "\<dots> = ?s1\<lparr>isPTTActive := True,
                      retellClient := retellClient ?s1 @ replicate (Suc n) Unmute\<rparr>"
    using Suc.prems by (intro Suc.IH) simp_all
  finally show ?case by simp
qed

text \<open>
  C9, amended: while connected in push-to-talk mode, every key-down of the space bar runs
  the press action, a key-repeat included and whatever \<open>isPTTActive\<close> is: it sets
  \<open>isPTTActive\<close> and invokes unmute, so a press followed by \<open>n\<close> repeats invokes unmute
  \<open>n + 1\<close> times. A key-up of the space bar runs the release action once: it clears
  \<open>isPTTActive\<close> and invokes mute once.
\<close>

theorem key_down_always_presses:
  assumes "status s = Connected" and "talkMode s = PushToTalk"
  shows "handleKeyDown (KeyboardEvent ''Space'' r) s =
           s\<lparr>isPTTActive := True, retellClient := retellClient s @ [Unmute]\<rparr>
     \<and> run (replicate (Suc n) (KeyDown (KeyboardEvent ''Space'' True))) s =
           s\<lparr>isPTTActive := True, retellClient := retellClient s @ replicate (Suc n) Unmute\<rparr>
     \<and> handleKeyUp (KeyboardEvent ''Space'' r) s =
           s\<lparr>isPTTActive := False, retellClient := retellClient s @ [Mute]\<rparr>"
  using assms run_key_repeats [of s n]
  by (simp add: handleKeyDown_def handlePTTStart_def handleKeyUp_def handlePTTEnd_def)

theorem key_down_always_presses_witness:
  "retellClient (run (replicate 3 (KeyDown (KeyboardEvent ''Space'' True)))
      (App_init\<lparr>status := Connected, talkMode := PushToTalk, isPTTActive := True\<rparr>))
     = [Unmute, Unmute, Unmute]
   \<and> isPTTActive (run (replicate 3 (KeyDown (KeyboardEvent ''Space'' True)))
      (App_init\<lparr>status := Connected, talkMode := PushToTalk, isPTTActive := True\<rparr>))
   \<and> retellClient (handleKeyUp (KeyboardEvent ''Space'' False)
      (App_init\<lparr>status := Connected, talkMode := PushToTalk, isPTTActive := True\<rparr>)) = [Mute]
   \<and> \<not> isPTTActive (handleKeyUp (KeyboardEvent ''Space'' False)
      (App_init\<lparr>status := Connected, talkMode := PushToTalk, isPTTActive := True\<rparr>))"
  using key_down_always_presses [of
      "App_init\<lparr>status := Connected, talkMode := PushToTalk, isPTTActive := True\<rparr>" False 2]
  by (simp add: App_init_def numeral_3_eq_3)

subsection \<open>A registration without a token\<close>

text \<open>
  C10. Let the registration answer with a status in 200 to 299 and an object whose
  \<open>access_token\<close> is missing or empty. In the variant with the single flag, a start
  (\<open>toggleConversation\<close> while not calling) invokes nothing on the client and leaves
  \<open>error\<close> unset. In the variant with several flags, a start that passes the guard and
  the microphone check invokes nothing on the client, leaves \<open>hasError\<close> false and
  \<open>errorDetail\<close> empty, and ends with \<open>isTransitioning\<close> still true, so that the start
  button stays disabled.
\<close>

theorem falsy_token_starts_nothing:
  assumes "fetched env = Response code (Json (JObject tok))"
    and "200 \<le> code" and "code \<le> 299"
    and "tok = None \<or> tok = Some []"
  shows "(\<not> isCalling_b s \<longrightarrow>
            retellWebClient_b (toggleConversation_b env s) = retellWebClient_b s
          \<and> error_b (toggleConversation_b env s) = None
          \<and> \<not> isCalling_b (toggleConversation_b env s))
     \<and> (\<not> isTransitioning t \<and> \<not> isCheckingMic t \<and> \<not> isCalling_m t \<and> mic env = MicGranted \<longrightarrow>
            retellWebClient_m (toggleConversation_m env t) = retellWebClient_m t
          \<and> \<not> hasError (toggleConversation_m env t)
          \<and> errorDetail (toggleConversation_m env t) = []
          \<and> \<not> isCalling_m (toggleConversation_m env t)
          \<and> isTransitioning (toggleConversation_m env t)
          \<and> \<not> isCheckingMic (toggleConversation_m env t)
          \<and> startButtonDisabled (toggleConversation_m env t))"
proof -
  from assms have reg: "registerCall (fetched env) = Inr (JObject tok)" and falsy: "\<not> truthy tok"
    by (auto simp: registerCall_def response_ok_def truthy_def)
  show ?thesis
    by (simp add: toggleConversation_b_def toggleConversation_m_def checkMicrophonePermission_def
        startButtonDisabled_def reg falsy Let_def)
qed

theorem falsy_token_starts_nothing_witness:
  "\<not> isCalling_b App_b_init
   \<and> retellWebClient_b (toggleConversation_b
        \<lparr>mic = MicGranted, fetched = Response 200 (Json (JObject None)), startResolves = True\<rparr>
        App_b_init) = []
   \<and> error_b (toggleConversation_b
        \<lparr>mic = MicGranted, fetched = Response 200 (Json (JObject None)), startResolves = True\<rparr>
        App_b_init) = None
   \<and> \<not> isTransitioning App_m_init \<and> \<not> isCheckingMic App_m_init \<and> \<not> isCalling_m App_m_init
   \<and> retellWebClient_m (toggleConversation_m
        \<lparr>mic = MicGranted, fetched = Response 200 (Json (JObject None)), startResolves = True\<rparr>
        App_m_init) = []
   \<and> \<not> hasError (toggleConversation_m
        \<lparr>mic = MicGranted, fetched = Response 200 (Json (JObject None)), startResolves = True\<rparr>
        App_m_init)
   \<and> isTransitioning (toggleConversation_m
        \<lparr>mic = MicGranted, fetched = Response 200 (Json (JObject None)), startResolves = True\<rparr>
        App_m_init)
   \<and> startButtonDisabled (toggleConversation_m
        \<lparr>mic = MicGranted, fetched = Response 200 (Json (JObject None)), startResolves = True\<rparr>
        App_m_init)"
  using falsy_token_starts_nothing [of
      "\<lparr>mic = MicGranted, fetched = Response 200 (Json (JObject None)), startResolves = True\<rparr>"
      200 None App_b_init App_m_init]
  by (simp add: App_b_init_def App_m_init_def)

end
